theory Spec2Isabelle
  imports Main
begin

section \<open>Topic matching (MqttClientWrapper.matchTopic)\<close>

text \<open>
  \<^verbatim>\<open>pattern.split('/')\<close>: the segments between the separators. The result is never
  empty: the empty string gives one empty segment, and a trailing separator gives a
  trailing empty segment.
\<close>

fun split :: "char \<Rightarrow> string \<Rightarrow> string list" where
  "split sep [] = [[]]"
| "split sep (c # cs) =
     (if c = sep then [] # split sep cs
      else (case split sep cs of
              [] \<Rightarrow> [[c]]
            | seg # segs \<Rightarrow> (c # seg) # segs))"

text \<open>
  \<^verbatim>\<open>xs[i]\<close> on an array: \<^verbatim>\<open>undefined\<close> (here \<open>None\<close>) out of range.
  \<^verbatim>\<open>!t\<close> on a segment that is a string or \<^verbatim>\<open>undefined\<close>: true for
  \<^verbatim>\<open>undefined\<close> and for the empty string.
\<close>

definition at :: "'a list \<Rightarrow> nat \<Rightarrow> 'a option" where
  "at xs i = (if i < length xs then Some (xs ! i) else None)"

definition falsy :: "string option \<Rightarrow> bool" where
  "falsy t = (case t of None \<Rightarrow> True | Some s \<Rightarrow> s = [])"

text \<open>
  The \<^verbatim>\<open>for (let i = 0; i < patternSegments.length; i++)\<close> loop of matchTopic, from
  index \<open>i\<close> on, and the \<^verbatim>\<open>return\<close> after it.
\<close>

function matchSegments :: "string list \<Rightarrow> string list \<Rightarrow> nat \<Rightarrow> bool" where
  "matchSegments patternSegments topicSegments i =
     (if i < length patternSegments then
        (if patternSegments ! i = ''#'' then i = length patternSegments - 1
         else if patternSegments ! i = ''+'' then
           (if falsy (at topicSegments i) then False
            else matchSegments patternSegments topicSegments (i + 1))
         else if Some (patternSegments ! i) \<noteq> at topicSegments i then False
         else matchSegments patternSegments topicSegments (i + 1))
      else length patternSegments = length topicSegments)"
  by pat_completeness auto
termination
  by (relation "measure (\<lambda>(ps, ts, i). length ps - i)") auto

declare matchSegments.simps [simp del]

definition matchTopic :: "string \<Rightarrow> string \<Rightarrow> bool" where
  "matchTopic pattern topic =
     matchSegments (split CHR ''/'' pattern) (split CHR ''/'' topic) 0"

text \<open>
  The matcher as the specification words it (TopicMatcher, evaluated left to right over
  the pattern segments): the multi-level wildcard succeeds iff it is the last pattern
  segment, whatever topic segments remain; the single-level wildcard needs one existing,
  non-empty topic segment; any other segment must equal the topic segment; an exhausted
  pattern needs an exhausted topic (equal segment counts).
\<close>

fun spec_matches :: "string list \<Rightarrow> string list \<Rightarrow> bool" where
  "spec_matches [] ts = (ts = [])"
| "spec_matches (p # ps) ts =
     (if p = ''#'' then ps = []
      else if p = ''+'' then
        (case ts of [] \<Rightarrow> False | t # ts' \<Rightarrow> t \<noteq> [] \<and> spec_matches ps ts')
      else (case ts of [] \<Rightarrow> False | t # ts' \<Rightarrow> p = t \<and> spec_matches ps ts'))"

section \<open>The MQTT client wrapper (MqttClientWrapper)\<close>

subsection \<open>State\<close>

text \<open>
  The optional lifecycle callbacks of \<^verbatim>\<open>ConnectionStatus\<close>; the wrapper holds, for each
  name, whether the caller implements it.
\<close>

datatype callback_name =
  CbConnecting | CbConnected | CbDisconnected | CbTimedout | CbClosed | CbError

text \<open>
  A registered handler is called with topic, message and packet; it returns or throws.
  Handlers are taken to leave the wrapper alone (they do not call back into it).
\<close>

datatype outcome = Returned | Threw string

type_synonym EventHandler = "string \<Rightarrow> string \<Rightarrow> nat \<Rightarrow> outcome"

datatype timer_kind = ConnectionTimer | ReconnectTimer

text \<open>
  What the wrapper does to the outside, in order: callbacks fired, handlers called (with
  the pattern they are registered under), console lines, requests to the transport
  (clients are numbered in order of creation), timers set and cleared.
\<close>

datatype effect =
    Callback callback_name
  | HandlerCall string string string nat
  | WarnNoHandlerMatched string
  | WarnNoHandlerRegistered string
  | ErrorInMessageHandler string
  | ErrorMqtt string
  | ErrorSubscribe string string
  | ErrorPublish string string
  | ErrorUnsubscribe string string
  | MqttConnect nat
  | ClientEnd nat
  | ClientSubscribe nat string
  | ClientPublish nat string string
  | ClientUnsubscribe nat string
  | SetTimeout nat timer_kind int
  | ClearTimeout nat

text \<open>
  A transport client as the wrapper sees it: the library's \<^verbatim>\<open>connected\<close> property,
  whether the \<^verbatim>\<open>once('connect')\<close> listener is still attached, and how many callbacks
  given to \<^verbatim>\<open>end(true, cb)\<close> the transport has not called yet.
\<close>

record mqtt_client =
  connected :: bool
  connect_listener :: bool
  end_callbacks :: nat

record options =
  opt_reconnectInterval :: "int option"
  opt_maxReconnectInterval :: "int option"
  opt_connectionTimeout :: "int option"

text \<open>
  The fields of the class, then the environment it acts on: every client created so far,
  the pending timers (identifier and callback), the next timer identifier, and the trace
  of effects. Intervals are whole milliseconds.
\<close>

record wrapper =
  client :: "nat option"
  url :: string
  reconnectInterval :: int
  maxReconnectInterval :: int
  currentReconnectInterval :: int
  connectionTimeout :: int
  eventHandlers :: "(string \<times> EventHandler) list"
  callback :: "callback_name \<Rightarrow> bool"
  reconnectTimeoutId :: "nat option"
  connectionTimeoutId :: "nat option"
  isExplicitlyDisconnected :: bool
  clients :: "mqtt_client list"
  timers :: "(nat \<times> timer_kind) list"
  next_timer :: nat
  trace :: "effect list"

datatype error = NotConnected

subsection \<open>Helpers of the language and the runtime\<close>

text \<open>\<^verbatim>\<open>v ?? d\<close>.\<close>

definition nullish :: "'a option \<Rightarrow> 'a \<Rightarrow> 'a" where
  "nullish v d = (case v of None \<Rightarrow> d | Some x \<Rightarrow> x)"

text \<open>
  A \<^verbatim>\<open>Map\<close> keeps insertion order; \<^verbatim>\<open>set\<close> on a present key replaces the value in
  place, on a new key appends; \<^verbatim>\<open>delete\<close> removes the key.
\<close>

fun Map_set :: "'k \<Rightarrow> 'v \<Rightarrow> ('k \<times> 'v) list \<Rightarrow> ('k \<times> 'v) list" where
  "Map_set k v [] = [(k, v)]"
| "Map_set k v ((k', v') # m) = (if k' = k then (k, v) # m else (k', v') # Map_set k v m)"

definition Map_delete :: "'k \<Rightarrow> ('k \<times> 'v) list \<Rightarrow> ('k \<times> 'v) list" where
  "Map_delete k m = filter (\<lambda>e. fst e \<noteq> k) m"

definition emit :: "effect \<Rightarrow> wrapper \<Rightarrow> wrapper" where
  "emit e s = s\<lparr>trace := trace s @ [e]\<rparr>"

text \<open>\<^verbatim>\<open>if (this.callback.x && typeof this.callback.x === 'function') this.callback.x()\<close>.\<close>

definition fire :: "callback_name \<Rightarrow> wrapper \<Rightarrow> wrapper" where
  "fire cb s = (if callback s cb then emit (Callback cb) s else s)"

text \<open>
  \<^verbatim>\<open>setTimeout\<close> returns a fresh identifier and leaves the timer pending. The runtime
  arms a timer whose delay is below 1 or above 2147483647 milliseconds with 1
  millisecond; the effect records the delay the timer is armed with.
  \<^verbatim>\<open>clearTimeout\<close> removes a pending timer and does nothing for \<^verbatim>\<open>null\<close> or for a timer
  that has fired.
\<close>

definition timer_delay :: "int \<Rightarrow> int" where
  "timer_delay delay = (if delay < 1 \<or> 2147483647 < delay then 1 else delay)"

definition setTimeout :: "timer_kind \<Rightarrow> int \<Rightarrow> wrapper \<Rightarrow> nat \<times> wrapper" where
  "setTimeout k delay s =
     (next_timer s,
      emit (SetTimeout (next_timer s) k (timer_delay delay))
        (s\<lparr>timers := timers s @ [(next_timer s, k)], next_timer := Suc (next_timer s)\<rparr>))"

definition clearTimeout :: "nat option \<Rightarrow> wrapper \<Rightarrow> wrapper" where
  "clearTimeout tid s =
     (case tid of
        None \<Rightarrow> s
      | Some t \<Rightarrow> emit (ClearTimeout t) (s\<lparr>timers := filter (\<lambda>e. fst e \<noteq> t) (timers s)\<rparr>))"

text \<open>
  \<^verbatim>\<open>client.end(true)\<close> and \<^verbatim>\<open>client.end(true, cb)\<close> on client \<open>c\<close>: a request to the
  transport; with a callback, the transport owes one more call-back.
\<close>

definition client_end :: "bool \<Rightarrow> nat \<Rightarrow> wrapper \<Rightarrow> wrapper" where
  "client_end with_cb c s =
     emit (ClientEnd c)
       (if with_cb \<and> c < length (clients s)
        then s\<lparr>clients := (clients s)
               [c := (clients s ! c)\<lparr>end_callbacks := Suc (end_callbacks (clients s ! c))\<rparr>]\<rparr>
        else s)"

text \<open>
  \<^verbatim>\<open>this.client = mqtt.connect(this.url, this.options)\<close> with the listeners that
  \<^verbatim>\<open>connect()\<close> attaches to the new client.
\<close>

definition mqtt_connect :: "wrapper \<Rightarrow> wrapper" where
  "mqtt_connect s =
     emit (MqttConnect (length (clients s)))
       (s\<lparr>client := Some (length (clients s)),
          clients := clients s @
            [\<lparr>connected = False, connect_listener = True, end_callbacks = 0\<rparr>]\<rparr>)"

subsection \<open>The class\<close>

definition constructor :: "string \<Rightarrow> options \<Rightarrow> (callback_name \<Rightarrow> bool) \<Rightarrow> wrapper" where
  "constructor u opts connstatus =
     \<lparr>client = None,
      url = u,
      reconnectInterval = nullish (opt_reconnectInterval opts) 1000,
      maxReconnectInterval = nullish (opt_maxReconnectInterval opts) 30000,
      currentReconnectInterval = nullish (opt_reconnectInterval opts) 1000,
      connectionTimeout = nullish (opt_connectionTimeout opts) 5000,
      eventHandlers = [],
      callback = connstatus,
      reconnectTimeoutId = None,
      connectionTimeoutId = None,
      isExplicitlyDisconnected = False,
      clients = [],
      timers = [],
      next_timer = 0,
      trace = []\<rparr>"

definition connect :: "wrapper \<Rightarrow> wrapper" where
  "connect s =
     (let s1 = (case client s of Some c \<Rightarrow> client_end False c s | None \<Rightarrow> s);
          s2 = s1\<lparr>isExplicitlyDisconnected := False\<rparr>;
          s3 = fire CbConnecting s2;
          s4 = mqtt_connect s3;
          (t, s5) = setTimeout ConnectionTimer (connectionTimeout s4) s4
      in s5\<lparr>connectionTimeoutId := Some t\<rparr>)"

text \<open>The callback of the connection timer.\<close>

definition connection_timer_fired :: "wrapper \<Rightarrow> wrapper" where
  "connection_timer_fired s =
     (let s1 = fire CbTimedout s
      in case client s1 of Some c \<Rightarrow> client_end False c s1 | None \<Rightarrow> s1)"

text \<open>The \<^verbatim>\<open>once('connect')\<close> listener.\<close>

definition on_connect :: "wrapper \<Rightarrow> wrapper" where
  "on_connect s =
     (let s1 = clearTimeout (connectionTimeoutId s) s;
          s2 = s1\<lparr>currentReconnectInterval := reconnectInterval s1\<rparr>
      in fire CbConnected s2)"

text \<open>
  The \<^verbatim>\<open>'message'\<close> listener: the loop over \<^verbatim>\<open>this.eventHandlers.entries()\<close> inside
  \<^verbatim>\<open>try\<close>, the warning after the loop, and the \<^verbatim>\<open>catch\<close> that ends the loop at the
  first handler that throws.
\<close>

fun dispatch ::
  "(string \<times> EventHandler) list \<Rightarrow> string \<Rightarrow> string \<Rightarrow> nat \<Rightarrow> bool \<Rightarrow> wrapper \<Rightarrow> wrapper"
where
  "dispatch [] topic message packet matched s =
     (if \<not> matched then emit (WarnNoHandlerMatched topic) s else s)"
| "dispatch ((pattern, handler) # rest) topic message packet matched s =
     (if matchTopic pattern topic then
        (case handler topic message packet of
           Returned \<Rightarrow>
             dispatch rest topic message packet True
               (emit (HandlerCall pattern topic message packet) s)
         | Threw err \<Rightarrow>
             emit (ErrorInMessageHandler err)
               (emit (HandlerCall pattern topic message packet) s))
      else dispatch rest topic message packet matched s)"

definition on_message :: "string \<Rightarrow> string \<Rightarrow> nat \<Rightarrow> wrapper \<Rightarrow> wrapper" where
  "on_message topic message packet s =
     dispatch (eventHandlers s) topic message packet False s"

text \<open>
  The revision of the listener in \<^verbatim>\<open>src/mqtt/MQTTClient.ts\<close>: the topic is looked up
  as a key of the registry, without wildcards and without \<^verbatim>\<open>try\<close>; the result is what
  the listener throws, if anything, and the state.
\<close>

definition on_message_rev0 ::
  "string \<Rightarrow> string \<Rightarrow> nat \<Rightarrow> wrapper \<Rightarrow> string option \<times> wrapper" where
  "on_message_rev0 topic message packet s =
     (case map_of (eventHandlers s) topic of
        Some handler \<Rightarrow>
          (case handler topic message packet of
             Returned \<Rightarrow> (None, emit (HandlerCall topic topic message packet) s)
           | Threw err \<Rightarrow> (Some err, emit (HandlerCall topic topic message packet) s))
      | None \<Rightarrow> (None, emit (WarnNoHandlerRegistered topic) s))"

definition reconnectWithBackoff :: "wrapper \<Rightarrow> wrapper" where
  "reconnectWithBackoff s =
     (let (t, s1) = setTimeout ReconnectTimer (currentReconnectInterval s) s
      in s1\<lparr>reconnectTimeoutId := Some t\<rparr>)"

text \<open>The callback of the reconnect timer.\<close>

definition reconnect_timer_fired :: "wrapper \<Rightarrow> wrapper" where
  "reconnect_timer_fired s =
     (let s1 = fire CbConnecting s;
          s2 = connect s1
      in s2\<lparr>currentReconnectInterval :=
              min (currentReconnectInterval s2 * 2) (maxReconnectInterval s2)\<rparr>)"

text \<open>The \<^verbatim>\<open>'close'\<close> and \<^verbatim>\<open>'error'\<close> listeners.\<close>

definition on_close :: "wrapper \<Rightarrow> wrapper" where
  "on_close s =
     (let s1 = fire CbClosed s
      in if \<not> isExplicitlyDisconnected s1 then reconnectWithBackoff s1 else s1)"

definition on_error :: "string \<Rightarrow> wrapper \<Rightarrow> wrapper" where
  "on_error msg s =
     (let s1 = fire CbError s;
          s2 = emit (ErrorMqtt msg) s1
      in clearTimeout (connectionTimeoutId s2) s2)"

text \<open>
  subscribe, publish and unsubscribe: the \<^verbatim>\<open>throw\<close> when \<^verbatim>\<open>this.client\<close> is null,
  else the request to the transport. The result is the error thrown, if any, and the
  state after the call. The callback each passes to the transport logs a failure.
\<close>

definition subscribe :: "string \<Rightarrow> wrapper \<Rightarrow> error option \<times> wrapper" where
  "subscribe topic s =
     (case client s of
        None \<Rightarrow> (Some NotConnected, s)
      | Some c \<Rightarrow> (None, emit (ClientSubscribe c topic) s))"

definition subscribe_callback :: "string \<Rightarrow> string option \<Rightarrow> wrapper \<Rightarrow> wrapper" where
  "subscribe_callback topic err s =
     (case err of Some e \<Rightarrow> emit (ErrorSubscribe topic e) s | None \<Rightarrow> s)"

definition publish :: "string \<Rightarrow> string \<Rightarrow> wrapper \<Rightarrow> error option \<times> wrapper" where
  "publish topic message s =
     (case client s of
        None \<Rightarrow> (Some NotConnected, s)
      | Some c \<Rightarrow> (None, emit (ClientPublish c topic message) s))"

definition publish_callback :: "string \<Rightarrow> string option \<Rightarrow> wrapper \<Rightarrow> wrapper" where
  "publish_callback topic err s =
     (case err of Some e \<Rightarrow> emit (ErrorPublish topic e) s | None \<Rightarrow> s)"

definition unsubscribe :: "string \<Rightarrow> wrapper \<Rightarrow> error option \<times> wrapper" where
  "unsubscribe topic s =
     (case client s of
        None \<Rightarrow> (Some NotConnected, s)
      | Some c \<Rightarrow> (None, emit (ClientUnsubscribe c topic) s))"

definition unsubscribe_callback :: "string \<Rightarrow> string option \<Rightarrow> wrapper \<Rightarrow> wrapper" where
  "unsubscribe_callback topic err s =
     (case err of Some e \<Rightarrow> emit (ErrorUnsubscribe topic e) s | None \<Rightarrow> s)"

definition registerHandler ::
  "string \<Rightarrow> EventHandler \<Rightarrow> wrapper \<Rightarrow> error option \<times> wrapper" where
  "registerHandler topic handler s =
     subscribe topic (s\<lparr>eventHandlers := Map_set topic handler (eventHandlers s)\<rparr>)"

definition unregisterHandler :: "string \<Rightarrow> wrapper \<Rightarrow> error option \<times> wrapper" where
  "unregisterHandler topic s =
     unsubscribe topic (s\<lparr>eventHandlers := Map_delete topic (eventHandlers s)\<rparr>)"

definition disconnect :: "wrapper \<Rightarrow> wrapper" where
  "disconnect s =
     (let s1 = s\<lparr>isExplicitlyDisconnected := True\<rparr>;
          s2 = (case reconnectTimeoutId s1 of
                  Some t \<Rightarrow> (clearTimeout (Some t) s1)\<lparr>reconnectTimeoutId := None\<rparr>
                | None \<Rightarrow> s1);
          s3 = (case connectionTimeoutId s2 of
                  Some t \<Rightarrow> (clearTimeout (Some t) s2)\<lparr>connectionTimeoutId := None\<rparr>
                | None \<Rightarrow> s2);
          s4 = s3\<lparr>eventHandlers := []\<rparr>
      in case client s4 of Some c \<Rightarrow> client_end True c s4 | None \<Rightarrow> s4)"

text \<open>The callback that disconnect passes to \<^verbatim>\<open>end\<close>.\<close>

definition disconnect_callback :: "wrapper \<Rightarrow> wrapper" where
  "disconnect_callback s = (fire CbDisconnected s)\<lparr>client := None\<rparr>"

text \<open>\<^verbatim>\<open>this.client?.connected ?? false\<close>.\<close>

definition isConnected :: "wrapper \<Rightarrow> bool" where
  "isConnected s =
     (case client s of
        None \<Rightarrow> False
      | Some c \<Rightarrow> (case at (clients s) c of None \<Rightarrow> False | Some cl \<Rightarrow> connected cl))"

subsection \<open>The environment\<close>

text \<open>
  What the transport and the timer queue can do to the wrapper: a client emits
  \<^verbatim>\<open>connect\<close>, \<^verbatim>\<open>message\<close>, \<^verbatim>\<open>close\<close> or \<^verbatim>\<open>error\<close>; the transport calls back one
  callback of an \<^verbatim>\<open>end(true, cb)\<close>; a pending timer fires; the transport answers a
  subscribe, publish or unsubscribe request. The library keeps \<^verbatim>\<open>connected\<close> up to date
  before the listeners run. Events for a client that was never created, a call-back that
  is not owed and a timer that is not pending do nothing.
\<close>

datatype event =
    Emit_connect nat
  | Emit_message nat string string nat
  | Emit_close nat
  | Emit_error nat string
  | End_callback nat
  | Timer_fires nat
  | Subscribe_callback string "string option"
  | Publish_callback string "string option"
  | Unsubscribe_callback string "string option"

definition set_client :: "nat \<Rightarrow> (mqtt_client \<Rightarrow> mqtt_client) \<Rightarrow> wrapper \<Rightarrow> wrapper" where
  "set_client c f s = s\<lparr>clients := (clients s)[c := f (clients s ! c)]\<rparr>"

fun step :: "event \<Rightarrow> wrapper \<Rightarrow> wrapper" where
  "step (Emit_connect c) s =
     (if c < length (clients s) then
        (if connect_listener (clients s ! c)
         then on_connect
                (set_client c (\<lambda>cl. cl\<lparr>connected := True, connect_listener := False\<rparr>) s)
         else set_client c (\<lambda>cl. cl\<lparr>connected := True\<rparr>) s)
      else s)"
| "step (Emit_message c topic message packet) s =
     (if c < length (clients s) then on_message topic message packet s else s)"
| "step (Emit_close c) s =
     (if c < length (clients s)
      then on_close (set_client c (\<lambda>cl. cl\<lparr>connected := False\<rparr>) s)
      else s)"
| "step (Emit_error c msg) s =
     (if c < length (clients s) then on_error msg s else s)"
| "step (End_callback c) s =
     (if c < length (clients s) \<and> 0 < end_callbacks (clients s ! c)
      then disconnect_callback
             (set_client c (\<lambda>cl. cl\<lparr>end_callbacks := end_callbacks cl - 1\<rparr>) s)
      else s)"
| "step (Timer_fires t) s =
     (case map_of (timers s) t of
        None \<Rightarrow> s
      | Some k \<Rightarrow>
          (let s1 = s\<lparr>timers := filter (\<lambda>e. fst e \<noteq> t) (timers s)\<rparr>
           in case k of
                ConnectionTimer \<Rightarrow> connection_timer_fired s1
              | ReconnectTimer \<Rightarrow> reconnect_timer_fired s1))"
| "step (Subscribe_callback topic err) s = subscribe_callback topic err s"
| "step (Publish_callback topic err) s = publish_callback topic err s"
| "step (Unsubscribe_callback topic err) s = unsubscribe_callback topic err s"

definition run :: "event list \<Rightarrow> wrapper \<Rightarrow> wrapper" where
  "run evs s = fold step evs s"

text \<open>The delays of the reconnect timers set in a trace, in order.\<close>

fun reconnect_waits :: "effect list \<Rightarrow> int list" where
  "reconnect_waits [] = []"
| "reconnect_waits (SetTimeout t ReconnectTimer delay # es) = delay # reconnect_waits es"
| "reconnect_waits (e # es) = reconnect_waits es"

subsection \<open>Runs\<close>


text \<open>
  A wrapper with the given intervals whose caller implements every callback, and a
  handler that returns.
\<close>

definition wrapper_with :: "int \<Rightarrow> int \<Rightarrow> wrapper" where
  "wrapper_with b m =
     constructor ''mqtt://broker''
       \<lparr>opt_reconnectInterval = Some b, opt_maxReconnectInterval = Some m,
        opt_connectionTimeout = None\<rparr>
       (\<lambda>cb. True)"

definition returning :: EventHandler where
  "returning topic message packet = Returned"

text \<open>
  A run with the default intervals in which the first attempt fails, the reconnect timer
  fires (connect() ends client 0 and creates client 1), client 1 closes, and client 0,
  ended by connect(), reports its close as well.
\<close>

definition stale_close_run :: wrapper where
  "stale_close_run =
     run [Emit_close 0, Timer_fires 1, Emit_close 1, Emit_close 0]
       (connect (wrapper_with 1000 30000))"

text \<open>The number of \<^verbatim>\<open>disconnected\<close> notifications in a trace.\<close>

definition disconnected_count :: "effect list \<Rightarrow> nat" where
  "disconnected_count tr = count_list tr (Callback CbDisconnected)"

text \<open>The handler calls of a trace.\<close>

fun handler_calls :: "effect list \<Rightarrow> effect list" where
  "handler_calls [] = []"
| "handler_calls (HandlerCall p t m k # es) = HandlerCall p t m k # handler_calls es"
| "handler_calls (e # es) = handler_calls es"


definition call_of :: "string \<Rightarrow> string \<Rightarrow> nat \<Rightarrow> string \<times> EventHandler \<Rightarrow> effect" where
  "call_of topic message packet e = HandlerCall (fst e) topic message packet"

definition returns :: "string \<Rightarrow> string \<Rightarrow> nat \<Rightarrow> string \<times> EventHandler \<Rightarrow> bool" where
  "returns topic message packet e = (snd e topic message packet = Returned)"

text \<open>
  A connected wrapper on which two handlers are registered, under the patterns
  \<^verbatim>\<open>x/+\<close> and \<^verbatim>\<open>x/y\<close>.
\<close>

definition registered_wrapper :: "EventHandler \<Rightarrow> EventHandler \<Rightarrow> wrapper" where
  "registered_wrapper h1 h2 =
     snd (registerHandler ''x/y'' h2
       (snd (registerHandler ''x/+'' h1 (connect (wrapper_with 1000 30000)))))"



section \<open>The Redis service (RedisService)\<close>

subsection \<open>State\<close>

text \<open>
  The pool hands out numbered clients. An entry is idle or borrowed. The pool is created
  with \<^verbatim>\<open>min: 2\<close>, so it starts with two clients; idle clients are handed out in the
  order in which they became idle, and a further client is created when none is idle.
  Admission beyond the pool's maximum and validation on borrow belong to the pool
  library and are outside this model: acquire always resolves.
\<close>

record pool =
  idle :: "nat list"
  borrowed :: "nat list"
  created :: nat

datatype redis_error = KeyDoesNotExist string | SyntaxError | ActionError string

datatype log_line =
    InfoInitializingPool
  | InfoClientCreated
  | ErrorOperationFailed redis_error
  | ErrorParseFailed string

datatype command =
    GET string
  | SET string string
  | SET_EX string string int
  | EXISTS string

text \<open>
  The service object (its pool, \<^verbatim>\<open>null\<close> before first use), the keyspace of the server
  (payload and expiry in whole seconds, if any), the lines given to the logger, and the
  commands sent, each with the client that sent it.
\<close>

record service =
  pool :: "pool option"
  store :: "string \<Rightarrow> (string \<times> int option) option"
  logged :: "log_line list"
  commands :: "(nat \<times> command) list"

type_synonym 'a result = "redis_error + 'a"

subsection \<open>Pool and client\<close>

definition logger :: "log_line \<Rightarrow> service \<Rightarrow> service" where
  "logger l s = s\<lparr>logged := logged s @ [l]\<rparr>"

definition initPool :: "service \<Rightarrow> service" where
  "initPool s =
     (case pool s of
        Some p \<Rightarrow> s
      | None \<Rightarrow>
          logger InfoClientCreated
            (logger InfoClientCreated
              ((logger InfoInitializingPool s)
                 \<lparr>pool := Some \<lparr>idle = [0, 1], borrowed = [], created = 2\<rparr>\<rparr>)))"

text \<open>
  \<^verbatim>\<open>this.pool!.acquire()\<close> and \<^verbatim>\<open>this.pool!.release(client)\<close>. The pool is asserted
  present: initPool has run, and only shutdown resets the pool, after draining it.
\<close>

definition acquire :: "service \<Rightarrow> nat \<times> service" where
  "acquire s =
     (case pool s of
        None \<Rightarrow> (0, s)
      | Some p \<Rightarrow>
          (case idle p of
             [] \<Rightarrow>
               (created p,
                logger InfoClientCreated
                  (s\<lparr>pool := Some (p\<lparr>borrowed := borrowed p @ [created p],
                                      created := Suc (created p)\<rparr>)\<rparr>))
           | c # cs \<Rightarrow>
               (c, s\<lparr>pool := Some (p\<lparr>idle := cs, borrowed := borrowed p @ [c]\<rparr>)\<rparr>)))"

definition release :: "nat \<Rightarrow> service \<Rightarrow> service" where
  "release c s =
     (case pool s of
        None \<Rightarrow> s
      | Some p \<Rightarrow>
          (if c \<in> set (borrowed p)
           then s\<lparr>pool := Some (p\<lparr>borrowed := removeAll c (borrowed p),
                                   idle := idle p @ [c]\<rparr>)\<rparr>
           else s))"

definition is_borrowed :: "nat \<Rightarrow> service \<Rightarrow> bool" where
  "is_borrowed c s = (case pool s of None \<Rightarrow> False | Some p \<Rightarrow> c \<in> set (borrowed p))"

definition is_idle :: "nat \<Rightarrow> service \<Rightarrow> bool" where
  "is_idle c s = (case pool s of None \<Rightarrow> False | Some p \<Rightarrow> c \<in> set (idle p))"

definition send :: "nat \<Rightarrow> command \<Rightarrow> service \<Rightarrow> service" where
  "send c cmd s = s\<lparr>commands := commands s @ [(c, cmd)]\<rparr>"

text \<open>
  The commands of a client that the operations use: \<^verbatim>\<open>get\<close> (the payload or
  \<^verbatim>\<open>null\<close>), \<^verbatim>\<open>set\<close> without and with \<^verbatim>\<open>'EX'\<close>, \<^verbatim>\<open>exists\<close> (the number of keys
  found).
\<close>

definition client_get :: "nat \<Rightarrow> string \<Rightarrow> service \<Rightarrow> string option \<times> service" where
  "client_get c key s = (map_option fst (store s key), send c (GET key) s)"

definition client_set :: "nat \<Rightarrow> string \<Rightarrow> string \<Rightarrow> service \<Rightarrow> service" where
  "client_set c key json s =
     (send c (SET key json) s)\<lparr>store := (store s)(key \<mapsto> (json, None))\<rparr>"

definition client_set_ex :: "nat \<Rightarrow> string \<Rightarrow> string \<Rightarrow> int \<Rightarrow> service \<Rightarrow> service" where
  "client_set_ex c key json seconds s =
     (send c (SET_EX key json seconds) s)\<lparr>store := (store s)(key \<mapsto> (json, Some seconds))\<rparr>"

definition client_exists :: "nat \<Rightarrow> string \<Rightarrow> service \<Rightarrow> nat \<times> service" where
  "client_exists c key s =
     ((case store s key of None \<Rightarrow> 0 | Some e \<Rightarrow> 1), send c (EXISTS key) s)"

subsection \<open>The operations\<close>

text \<open>
  withClient: acquire, run the action, log and rethrow what it throws, release in
  \<^verbatim>\<open>finally\<close>. An action gets the client and acts on the service; its result is a
  value or the error it throws.
\<close>

definition withClient ::
  "(nat \<Rightarrow> service \<Rightarrow> 'a result \<times> service) \<Rightarrow> service \<Rightarrow> 'a result \<times> service" where
  "withClient action s =
     (let s1 = initPool s;
          (c, s2) = acquire s1;
          (r, s3) = action c s2;
          s4 = (case r of Inl err \<Rightarrow> logger (ErrorOperationFailed err) s3 | Inr v \<Rightarrow> s3)
      in (r, release c s4))"

text \<open>
  \<^verbatim>\<open>JSON.stringify\<close> and \<^verbatim>\<open>JSON.parse\<close> are the language's: the operations take them as
  parameters, \<open>parse\<close> giving \<open>None\<close> where \<^verbatim>\<open>JSON.parse\<close> throws. In a result,
  \<open>None\<close> is \<^verbatim>\<open>null\<close>. \<^verbatim>\<open>if (ttlInSeconds)\<close> on an optional number holds for a number
  other than zero.
\<close>

definition set_redis ::
  "('v \<Rightarrow> string) \<Rightarrow> string \<Rightarrow> 'v \<Rightarrow> int option \<Rightarrow> service \<Rightarrow> unit result \<times> service" where
  "set_redis stringify key v ttlInSeconds s =
     withClient
       (\<lambda>c s'.
          (let json = stringify v
           in case ttlInSeconds of
                None \<Rightarrow> (Inr (), client_set c key json s')
              | Some n \<Rightarrow>
                  (if n \<noteq> 0 then (Inr (), client_set_ex c key json n s')
                   else (Inr (), client_set c key json s'))))
       s"

definition get ::
  "(string \<Rightarrow> 'v option) \<Rightarrow> string \<Rightarrow> service \<Rightarrow> 'v option result \<times> service" where
  "get parse key s =
     withClient
       (\<lambda>c s'.
          (let (val, s1) = client_get c key s'
           in case val of
                None \<Rightarrow> (Inr None, s1)
              | Some text \<Rightarrow>
                  (if text = [] then (Inr None, s1)
                   else (case parse text of
                           Some v \<Rightarrow> (Inr (Some v), s1)
                         | None \<Rightarrow> (Inr None, logger (ErrorParseFailed key) s1)))))
       s"

definition update ::
  "('v \<Rightarrow> string) \<Rightarrow> string \<Rightarrow> 'v \<Rightarrow> int option \<Rightarrow> service \<Rightarrow> unit result \<times> service" where
  "update stringify key v ttlInSeconds s =
     withClient
       (\<lambda>c s'.
          (let (exists, s1) = client_exists c key s'
           in if exists = 0 then (Inl (KeyDoesNotExist key), s1)
              else set_redis stringify key v ttlInSeconds s1))
       s"

subsection \<open>The earlier revision of get\<close>

text \<open>
  The revision of the service in \<^verbatim>\<open>src/redis/RedisService.ts\<close> differs in two places
  that matter here: its withClient has no \<^verbatim>\<open>catch\<close> (nothing is logged), and its get is
  \<^verbatim>\<open>val ? JSON.parse(val) : null\<close>, so a parse failure is thrown.
\<close>

definition withClient_rev0 ::
  "(nat \<Rightarrow> service \<Rightarrow> 'a result \<times> service) \<Rightarrow> service \<Rightarrow> 'a result \<times> service" where
  "withClient_rev0 action s =
     (let s1 = initPool s;
          (c, s2) = acquire s1;
          (r, s3) = action c s2
      in (r, release c s3))"

definition get_rev0 ::
  "(string \<Rightarrow> 'v option) \<Rightarrow> string \<Rightarrow> service \<Rightarrow> 'v option result \<times> service" where
  "get_rev0 parse key s =
     withClient_rev0
       (\<lambda>c s'.
          (let (val, s1) = client_get c key s'
           in case val of
                None \<Rightarrow> (Inr None, s1)
              | Some text \<Rightarrow>
                  (if text = [] then (Inr None, s1)
                   else (case parse text of
                           Some v \<Rightarrow> (Inr (Some v), s1)
                         | None \<Rightarrow> (Inl SyntaxError, s1)))))
       s"

subsection \<open>A parser for the witnesses\<close>

text \<open>
  The theorems hold for every parser. Where a concrete one is needed, this one reads the
  three literal names of JSON and rejects every other text; on the texts used below (the
  empty text, an opening brace with nothing after it) \<^verbatim>\<open>JSON.parse\<close> throws as well.
\<close>

datatype json = JNull | JBool bool

definition parse_literal :: "string \<Rightarrow> json option" where
  "parse_literal text =
     (if text = ''null'' then Some JNull
      else if text = ''true'' then Some (JBool True)
      else if text = ''false'' then Some (JBool False)
      else None)"

definition stringify_literal :: "json \<Rightarrow> string" where
  "stringify_literal v =
     (case v of JNull \<Rightarrow> ''null'' | JBool True \<Rightarrow> ''true'' | JBool False \<Rightarrow> ''false'')"

definition fresh_service :: service where
  "fresh_service = \<lparr>pool = None, store = Map.empty, logged = [], commands = []\<rparr>"

text \<open>An action that throws, and a keyspace with an empty and a corrupted payload.\<close>

definition raising_action :: "nat \<Rightarrow> service \<Rightarrow> nat result \<times> service" where
  "raising_action c s = (Inl (ActionError ''boom''), s)"

definition stored_service :: service where
  "stored_service =
     fresh_service\<lparr>store := [''empty'' \<mapsto> ([], None), ''corrupted'' \<mapsto> (''{'', None)]\<rparr>"

section \<open>Theorems: topic matching\<close>

lemma matchSegments_drop:
  "i \<le> length ps \<Longrightarrow> i \<le> length ts \<Longrightarrow>
   matchSegments ps ts i = spec_matches (drop i ps) (drop i ts)"
proof (induction ps ts i rule: matchSegments.induct)
  case (1 ps ts i)
  show ?case
  proof (cases "i < length ps")
    case False
    with "1.prems" have "i = length ps" by simp
    with "1.prems" show ?thesis
      by (subst matchSegments.simps) auto
  next
    case inrange: True
    then have dp: "drop i ps = ps ! i # drop (Suc i) ps"
      by (simp add: Cons_nth_drop_Suc)
    show ?thesis
    proof (cases "i < length ts")
      case False
      with "1.prems" have "drop i ts = []" by simp
      with inrange False dp show ?thesis
        by (subst matchSegments.simps) (auto simp: at_def falsy_def)
    next
      case True
      then have dt: "drop i ts = ts ! i # drop (Suc i) ts"
        by (simp add: Cons_nth_drop_Suc)
      from inrange True have le: "i + 1 \<le> length ps" "i + 1 \<le> length ts" by simp_all
      show ?thesis
      proof (cases "ps ! i = ''#''")
        case True
        with inrange dp show ?thesis
          by (subst matchSegments.simps) (auto simp: drop_eq_Nil)
      next
        case notHash: False
        show ?thesis
        proof (cases "ps ! i = ''+''")
          case plus: True
          show ?thesis
          proof (cases "ts ! i = []")
            case True
            with inrange \<open>i < length ts\<close> notHash plus dp dt show ?thesis
              by (subst matchSegments.simps) (simp add: at_def falsy_def)
          next
            case False
            with inrange \<open>i < length ts\<close> have nf: "\<not> falsy (at ts i)"
              by (simp add: at_def falsy_def)
            from "1.IH"(1) [OF inrange notHash plus nf le]
            have "matchSegments ps ts (i + 1) = spec_matches (drop (i + 1) ps) (drop (i + 1) ts)" .
            with inrange notHash plus nf False dp dt show ?thesis
              by (subst matchSegments.simps) simp
          qed
        next
          case lit: False
          show ?thesis
          proof (cases "Some (ps ! i) \<noteq> at ts i")
            case True
            with inrange \<open>i < length ts\<close> notHash lit dp dt show ?thesis
              by (subst matchSegments.simps) (auto simp: at_def)
          next
            case False
            from "1.IH"(2) [OF inrange notHash lit False le]
            have "matchSegments ps ts (i + 1) = spec_matches (drop (i + 1) ps) (drop (i + 1) ts)" .
            with inrange \<open>i < length ts\<close> notHash lit False dp dt show ?thesis
              by (subst matchSegments.simps) (auto simp: at_def)
          qed
        qed
      qed
    qed
  qed
qed

lemma spec_matches_inner_hash:
  "\<not> spec_matches (pre @ ''#'' # q # rest) ts"
  by (induction pre arbitrary: ts) (auto split: list.splits)

lemma matchTopic_refines:
  "matchTopic pattern topic =
     spec_matches (split CHR ''/'' pattern) (split CHR ''/'' topic)"
  by (simp add: matchTopic_def matchSegments_drop)

text \<open>
  C1. matchTopic decides exactly the wildcard semantics of the specification: on the
  segments of pattern and topic it returns what the specification's matcher returns
  (multi-level wildcard iff last, single-level wildcard for one existing non-empty
  segment, literal equality otherwise, equal segment counts when the pattern runs out);
  a pattern with the multi-level wildcard before its last segment matches no topic; and
  the listed edge cases come out as the specification lists them.
\<close>

theorem matchTopic_wildcard_semantics:
  "matchTopic pattern topic =
     spec_matches (split CHR ''/'' pattern) (split CHR ''/'' topic)
   \<and> \<not> matchSegments (pre @ ''#'' # q # rest) ts 0
   \<and> matchTopic ''a/#'' ''a'' \<and> matchTopic ''a/#'' ''a/b'' \<and> matchTopic ''a/#'' ''a/b/c''
   \<and> matchTopic ''a/+/c'' ''a/x/c'' \<and> \<not> matchTopic ''a/+/c'' ''a/c''
   \<and> \<not> matchTopic ''a/+/c'' ''a/x/y/c''
   \<and> matchTopic ''sensors/+/temp'' ''sensors/1/temp''
   \<and> \<not> matchTopic ''sensors/+/temp'' ''sensors/1/2/temp''
   \<and> \<not> matchTopic ''a/#/c'' topic"
proof -
  have inner: "\<not> matchSegments (pre @ ''#'' # q # rest) ts 0"
    by (simp add: matchSegments_drop spec_matches_inner_hash)
  have "split CHR ''/'' ''a/#/c'' = [''a''] @ ''#'' # ''c'' # []"
    by simp
  then have nonfinal: "\<not> matchTopic ''a/#/c'' topic"
    using spec_matches_inner_hash [of "[''a'']" "''c''" "[]" "split CHR ''/'' topic"]
    by (simp only: matchTopic_refines) simp
  show ?thesis
    using inner nonfinal by (simp add: matchTopic_refines)
qed

section \<open>Theorems: the MQTT client wrapper\<close>

subsection \<open>Primitive steps as record updates\<close>

lemma fire_alt:
  "fire cb s = s\<lparr>trace := trace s @ (if callback s cb then [Callback cb] else [])\<rparr>"
  by (simp add: fire_def emit_def)

lemma clearTimeout_alt:
  "clearTimeout tid s =
     s\<lparr>timers := filter (\<lambda>e. Some (fst e) \<noteq> tid) (timers s),
       trace := trace s @ (case tid of None \<Rightarrow> [] | Some t \<Rightarrow> [ClearTimeout t])\<rparr>"
  by (cases tid) (simp_all add: clearTimeout_def emit_def)

lemma client_end_alt:
  "client_end with_cb c s =
     s\<lparr>clients := (if with_cb
          then (clients s)[c := (clients s ! c)\<lparr>end_callbacks := Suc (end_callbacks (clients s ! c))\<rparr>]
          else clients s),
       trace := trace s @ [ClientEnd c]\<rparr>"
  by (cases "c < length (clients s)") (simp_all add: client_end_def emit_def list_update_beyond)

lemma reconnect_waits_append [simp]:
  "reconnect_waits (xs @ ys) = reconnect_waits xs @ reconnect_waits ys"
  by (induction xs rule: reconnect_waits.induct) simp_all

lemma reconnect_waits_fire [simp]:
  "reconnect_waits (if c then [Callback cb] else []) = []"
  by simp

lemmas prim = fire_alt clearTimeout_alt client_end_alt emit_def setTimeout_def mqtt_connect_def
  set_client_def Let_def







lemmas handlers = on_connect_def on_close_def on_error_def reconnectWithBackoff_def
  reconnect_timer_fired_def connection_timer_fired_def connect_def disconnect_def
  disconnect_callback_def

lemmas start = wrapper_with_def constructor_def nullish_def

subsection \<open>Reconnection backoff\<close>














subsection \<open>Dispatch of inbound messages\<close>

lemma returns_pair: "returns topic message packet (p, h) = (h topic message packet = Returned)"
  by (simp add: returns_def)

lemma call_of_pair: "call_of topic message packet (p, h) = HandlerCall p topic message packet"
  by (simp add: call_of_def)


lemma dispatch_throw:
  "filter (\<lambda>e. matchTopic (fst e) topic) hs = before @ (p', h') # rest \<Longrightarrow>
   list_all (returns topic message packet) before \<Longrightarrow>
   h' topic message packet = Threw err \<Longrightarrow>
   dispatch hs topic message packet matched s =
     s\<lparr>trace := trace s @ map (call_of topic message packet) before
        @ [HandlerCall p' topic message packet, ErrorInMessageHandler err]\<rparr>"
proof (induction hs arbitrary: before matched s)
  case Nil
  then show ?case by simp
next
  case (Cons e hs)
  obtain p h where e: "e = (p, h)" by (cases e)
  show ?case
  proof (cases "matchTopic p topic")
    case False
    with Cons e show ?thesis by simp
  next
    case True
    show ?thesis
    proof (cases before)
      case Nil
      with Cons.prems True e show ?thesis
        by (simp add: emit_def)
    next
      case (Cons b before')
      with Cons.prems(1) True e have b: "b = (p, h)"
        and f: "filter (\<lambda>e. matchTopic (fst e) topic) hs = before' @ (p', h') # rest"
        by simp_all
      from Cons.prems(2) Cons b have r: "h topic message packet = Returned"
        and br: "list_all (returns topic message packet) before'"
        by (simp_all add: returns_pair)
      from Cons.IH [OF f br Cons.prems(3)] True e r Cons b show ?thesis
        by (simp add: emit_def call_of_pair)
    qed
  qed
qed





text \<open>
  The earlier revision of the listener calls only the handler registered under the
  topic itself: on \<^verbatim>\<open>x/y\<close> the handler under \<^verbatim>\<open>x/+\<close> is not called.
\<close>

lemma on_message_rev0_exact_match:
  "fst (on_message_rev0 ''x/y'' ''on'' 7 (registered_wrapper returning returning)) = None
   \<and> handler_calls (trace (snd (on_message_rev0 ''x/y'' ''on'' 7
        (registered_wrapper returning returning)))) = [HandlerCall ''x/y'' ''x/y'' ''on'' 7]"
  by (simp add: on_message_rev0_def registered_wrapper_def registerHandler_def subscribe_def
      connect_def start returning_def prim)

subsection \<open>Disconnecting\<close>

text \<open>
  C7 on the code. A second disconnect() after the transport has called back finds no
  client and changes nothing: one notification. But two disconnect() calls in a row,
  before the transport has called back, both find the client and pass two callbacks to
  \<^verbatim>\<open>end\<close>: the caller is notified twice. And disconnect() clears only the reconnect
  timer whose identifier the wrapper holds: in the run where the client ended by
  connect() reported its close, the timers 3 and 4 are both reconnect timers, the
  wrapper holds 4, disconnect() leaves 3 pending, and when it fires the wrapper
  connects again (a third client) and clears the explicit-disconnect flag.
\<close>

theorem disconnect_notifies_twice_and_reconnects:
  "disconnected_count (trace (run [End_callback 0]
      (disconnect (run [End_callback 0] (disconnect (connect (wrapper_with 1000 30000))))))) = 1
   \<and> disconnected_count (trace (run [End_callback 0, End_callback 0]
      (disconnect (disconnect (connect (wrapper_with 1000 30000)))))) = 2
   \<and> timers stale_close_run =
       [(0, ConnectionTimer), (2, ConnectionTimer), (3, ReconnectTimer), (4, ReconnectTimer)]
   \<and> reconnectTimeoutId stale_close_run = Some 4
   \<and> timers (disconnect stale_close_run) = [(0, ConnectionTimer), (3, ReconnectTimer)]
   \<and> isExplicitlyDisconnected (disconnect stale_close_run)
   \<and> length (clients (disconnect stale_close_run)) = 2
   \<and> length (clients (run [Timer_fires 3] (disconnect stale_close_run))) = 3
   \<and> \<not> isExplicitlyDisconnected (run [Timer_fires 3] (disconnect stale_close_run))"
  by (simp add: stale_close_run_def run_def disconnected_count_def handlers start prim)

subsection \<open>Registering handlers\<close>

lemma map_of_Map_set: "map_of (Map_set k v m) k = Some v"
  by (induction m) auto

lemma map_of_Map_delete: "map_of (Map_delete k m) k = None"
  by (induction m) (auto simp: Map_delete_def)

lemma keys_Map_set: "fst ` set (Map_set k v m) = insert k (fst ` set m)"
proof (induction m)
  case Nil
  show ?case by simp
next
  case (Cons e m)
  then show ?case by (cases e) (simp add: insert_commute)
qed

lemma distinct_Map_set: "distinct (map fst m) \<Longrightarrow> distinct (map fst (Map_set k v m))"
proof (induction m)
  case Nil
  then show ?case by simp
next
  case (Cons e m)
  then show ?case by (cases e) (auto simp: keys_Map_set)
qed

lemma distinct_Map_delete: "distinct (map fst m) \<Longrightarrow> distinct (map fst (Map_delete k m))"
  by (simp add: Map_delete_def distinct_map_filter)

text \<open>The registry keeps its keys distinct.\<close>

lemma registry_keys_distinct:
  "distinct (map fst (eventHandlers s)) \<Longrightarrow>
   distinct (map fst (eventHandlers (snd (registerHandler topic handler s))))
   \<and> distinct (map fst (eventHandlers (snd (unregisterHandler topic s))))
   \<and> distinct (map fst (eventHandlers (disconnect s)))"
  by (simp add: registerHandler_def unregisterHandler_def subscribe_def unsubscribe_def
      disconnect_def distinct_Map_set distinct_Map_delete prim split: option.splits)

text \<open>
  C8, as amended. registerHandler always puts the handler into the registry under its
  pattern; it raises the not-connected error iff the wrapper has no client, after the
  registry has changed; with a client it returns normally and sends the subscribe
  request, and a failure of that request is logged when the transport reports it and
  leaves the registry as it is. unregisterHandler does the same with removal and
  unsubscribe.
\<close>

theorem registerHandler_outcome:
  "eventHandlers (snd (registerHandler topic handler s)) = Map_set topic handler (eventHandlers s)
   \<and> map_of (eventHandlers (snd (registerHandler topic handler s))) topic = Some handler
   \<and> (fst (registerHandler topic handler s) = Some NotConnected) = (client s = None)
   \<and> (client s = Some c \<longrightarrow>
        fst (registerHandler topic handler s) = None
        \<and> trace (snd (registerHandler topic handler s)) = trace s @ [ClientSubscribe c topic])
   \<and> trace (step (Subscribe_callback topic (Some err)) s) = trace s @ [ErrorSubscribe topic err]
   \<and> eventHandlers (step (Subscribe_callback topic (Some err)) s) = eventHandlers s
   \<and> eventHandlers (snd (unregisterHandler topic s)) = Map_delete topic (eventHandlers s)
   \<and> map_of (eventHandlers (snd (unregisterHandler topic s))) topic = None
   \<and> (fst (unregisterHandler topic s) = Some NotConnected) = (client s = None)
   \<and> (client s = Some c \<longrightarrow>
        fst (unregisterHandler topic s) = None
        \<and> trace (snd (unregisterHandler topic s)) = trace s @ [ClientUnsubscribe c topic])
   \<and> trace (step (Unsubscribe_callback topic (Some err)) s) =
        trace s @ [ErrorUnsubscribe topic err]
   \<and> eventHandlers (step (Unsubscribe_callback topic (Some err)) s) = eventHandlers s"
  by (auto simp: registerHandler_def unregisterHandler_def subscribe_def unsubscribe_def
      subscribe_callback_def unsubscribe_callback_def emit_def map_of_Map_set map_of_Map_delete
      split: option.splits)

text \<open>On a connected wrapper: register, a refused subscription, unregister.\<close>

theorem registerHandler_outcome_witness:
  "client (connect (wrapper_with 1000 30000)) = Some 0
   \<and> fst (registerHandler ''x/+'' returning (connect (wrapper_with 1000 30000))) = None
   \<and> map fst (eventHandlers
        (snd (registerHandler ''x/+'' returning (connect (wrapper_with 1000 30000))))) = [''x/+'']
   \<and> trace (run [Subscribe_callback ''x/+'' (Some ''refused'')]
        (snd (registerHandler ''x/+'' returning (connect (wrapper_with 1000 30000))))) =
       trace (connect (wrapper_with 1000 30000))
         @ [ClientSubscribe 0 ''x/+'', ErrorSubscribe ''x/+'' ''refused'']
   \<and> fst (unregisterHandler ''x/+''
        (snd (registerHandler ''x/+'' returning (connect (wrapper_with 1000 30000))))) = None
   \<and> eventHandlers (snd (unregisterHandler ''x/+''
        (snd (registerHandler ''x/+'' returning (connect (wrapper_with 1000 30000)))))) = []"
proof -
  let ?s = "connect (wrapper_with 1000 30000)"
  let ?r = "snd (registerHandler ''x/+'' returning ?s)"
  have c: "client ?s = Some 0" and e: "eventHandlers ?s = []"
    by (simp_all add: connect_def wrapper_with_def constructor_def nullish_def prim)
  from registerHandler_outcome [of "''x/+''" returning ?s 0] c e
  have r: "fst (registerHandler ''x/+'' returning ?s) = None"
    "eventHandlers ?r = [(''x/+'', returning)]"
    "trace ?r = trace ?s @ [ClientSubscribe 0 ''x/+'']"
    by simp_all
  have cr: "client ?r = Some 0"
    using c by (simp add: registerHandler_def subscribe_def emit_def)
  from registerHandler_outcome [of "''x/+''" returning ?r 0 "''refused''"] cr r
  show ?thesis
    using c by (simp add: run_def Map_delete_def)
qed

text \<open>
  C8 as stated fails before connect(): there is no client, registerHandler raises the
  not-connected error, and the registry holds the handler all the same.
\<close>

theorem registerHandler_without_client_raises:
  "client (wrapper_with 1000 30000) = None
   \<and> fst (registerHandler ''x/+'' returning (wrapper_with 1000 30000)) = Some NotConnected
   \<and> map fst (eventHandlers (snd (registerHandler ''x/+'' returning (wrapper_with 1000 30000))))
       = [''x/+'']
   \<and> fst (unregisterHandler ''x/+'' (wrapper_with 1000 30000)) = Some NotConnected"
  by (simp add: registerHandler_def unregisterHandler_def subscribe_def unsubscribe_def
      wrapper_with_def constructor_def Map_delete_def)

subsection \<open>Publishing without a connection\<close>

text \<open>
  C10. publish, subscribe and unsubscribe raise the not-connected error iff the wrapper
  has no client; with a client whose connection is down they return normally and hand
  the request to the transport.
\<close>

theorem publish_raises_iff_no_client:
  "(fst (publish topic message s) = Some NotConnected) = (client s = None)
   \<and> (fst (subscribe topic s) = Some NotConnected) = (client s = None)
   \<and> (fst (unsubscribe topic s) = Some NotConnected) = (client s = None)
   \<and> (client s = None \<longrightarrow> publish topic message s = (Some NotConnected, s))
   \<and> (client s = Some c \<and> \<not> isConnected s \<longrightarrow>
        publish topic message s = (None, emit (ClientPublish c topic message) s)
        \<and> subscribe topic s = (None, emit (ClientSubscribe c topic) s)
        \<and> unsubscribe topic s = (None, emit (ClientUnsubscribe c topic) s))"
  by (auto simp: publish_def subscribe_def unsubscribe_def split: option.splits)

text \<open>
  After a close reported by the broker the client is still there, isConnected() is
  false and a reconnect is pending: publish returns normally. Before connect() it raises.
\<close>

theorem publish_raises_iff_no_client_witness:
  "client (run [Emit_connect 0, Emit_close 0] (connect (wrapper_with 1000 30000))) = Some 0
   \<and> \<not> isConnected (run [Emit_connect 0, Emit_close 0] (connect (wrapper_with 1000 30000)))
   \<and> timers (run [Emit_connect 0, Emit_close 0] (connect (wrapper_with 1000 30000))) =
       [(1, ReconnectTimer)]
   \<and> fst (publish ''t'' ''m''
        (run [Emit_connect 0, Emit_close 0] (connect (wrapper_with 1000 30000)))) = None
   \<and> client (wrapper_with 1000 30000) = None
   \<and> fst (publish ''t'' ''m'' (wrapper_with 1000 30000)) = Some NotConnected"
proof -
  let ?s = "run [Emit_connect 0, Emit_close 0] (connect (wrapper_with 1000 30000))"
  have c: "client ?s = Some 0" and d: "\<not> isConnected ?s"
    and t: "timers ?s = [(1, ReconnectTimer)]"
    by (simp_all add: run_def on_connect_def on_close_def reconnectWithBackoff_def connect_def
        wrapper_with_def constructor_def nullish_def isConnected_def at_def prim)
  have n: "client (wrapper_with 1000 30000) = None"
    by (simp add: wrapper_with_def constructor_def)
  from publish_raises_iff_no_client [of "''t''" "''m''" ?s]
    publish_raises_iff_no_client [of "''t''" "''m''" "wrapper_with 1000 30000"] c d t n
  show ?thesis by simp
qed

section \<open>Theorems: the Redis service\<close>

lemma pool_initPool: "pool (initPool s) \<noteq> None"
  by (simp add: initPool_def logger_def split: option.splits)

lemma store_initPool [simp]: "store (initPool s) = store s"
  by (simp add: initPool_def logger_def split: option.splits)

lemma commands_initPool [simp]: "commands (initPool s) = commands s"
  by (simp add: initPool_def logger_def split: option.splits)

lemma store_acquire [simp]: "store (snd (acquire s)) = store s"
  by (simp add: acquire_def logger_def split: option.splits list.splits)

lemma commands_acquire [simp]: "commands (snd (acquire s)) = commands s"
  by (simp add: acquire_def logger_def split: option.splits list.splits)

lemma store_release [simp]: "store (release c s) = store s"
  by (simp add: release_def split: option.splits)

lemma commands_release [simp]: "commands (release c s) = commands s"
  by (simp add: release_def split: option.splits)

lemma logged_release [simp]: "logged (release c s) = logged s"
  by (simp add: release_def split: option.splits)

lemma store_logger [simp]: "store (logger l s) = store s"
  by (simp add: logger_def)

lemma commands_logger [simp]: "commands (logger l s) = commands s"
  by (simp add: logger_def)

lemma logged_logger [simp]: "logged (logger l s) = logged s @ [l]"
  by (simp add: logger_def)

lemma not_borrowed_release: "\<not> is_borrowed c (release c s)"
  by (auto simp: is_borrowed_def release_def split: option.splits)

lemma idle_release: "is_borrowed c s \<Longrightarrow> is_idle c (release c s)"
  by (auto simp: is_borrowed_def is_idle_def release_def split: option.splits)

lemma is_borrowed_logger [simp]: "is_borrowed c (logger l s) = is_borrowed c s"
  by (simp add: is_borrowed_def logger_def)

lemma borrowed_acquire: "pool s \<noteq> None \<Longrightarrow> is_borrowed (fst (acquire s)) (snd (acquire s))"
  by (auto simp: is_borrowed_def acquire_def logger_def split: option.splits list.splits)

lemma withClient_unfold:
  "acquire (initPool s) = (c, s2) \<Longrightarrow> action c s2 = (r, s3) \<Longrightarrow>
   withClient action s =
     (r, release c (case r of Inl err \<Rightarrow> logger (ErrorOperationFailed err) s3 | Inr v \<Rightarrow> s3))"
  by (simp add: withClient_def)

text \<open>
  C6. For every action given to withClient: the client acquired for it is borrowed while
  the action runs; the result of withClient is the action's result, a value or the error
  it throws; afterwards the client is not borrowed, and it is idle again if the action
  left it borrowed; and an error is logged before it is propagated.
\<close>

theorem withClient_always_releases:
  assumes "acquire (initPool s) = (c, s2)" and "action c s2 = (r, s3)"
  shows "is_borrowed c s2
    \<and> fst (withClient action s) = r
    \<and> \<not> is_borrowed c (snd (withClient action s))
    \<and> (is_borrowed c s3 \<longrightarrow> is_idle c (snd (withClient action s)))
    \<and> logged (snd (withClient action s)) =
        (case r of Inl err \<Rightarrow> logged s3 @ [ErrorOperationFailed err] | Inr v \<Rightarrow> logged s3)"
proof -
  note u = withClient_unfold [of s c s2 action r s3, OF assms]
  from assms(1) have "is_borrowed c s2"
    using borrowed_acquire [OF pool_initPool, of s] by simp
  moreover have "\<not> is_borrowed c (snd (withClient action s))"
    by (simp add: u not_borrowed_release)
  moreover have "is_borrowed c s3 \<longrightarrow> is_idle c (snd (withClient action s))"
    by (cases r) (simp_all add: u idle_release)
  moreover have "logged (snd (withClient action s)) =
        (case r of Inl err \<Rightarrow> logged s3 @ [ErrorOperationFailed err] | Inr v \<Rightarrow> logged s3)"
    by (cases r) (simp_all add: u)
  ultimately show ?thesis
    by (simp add: u)
qed

theorem withClient_always_releases_witness:
  "fst (withClient raising_action fresh_service) = Inl (ActionError ''boom'')
   \<and> \<not> is_borrowed 0 (snd (withClient raising_action fresh_service))
   \<and> is_idle 0 (snd (withClient raising_action fresh_service))
   \<and> logged (snd (withClient raising_action fresh_service)) =
       [InfoInitializingPool, InfoClientCreated, InfoClientCreated,
        ErrorOperationFailed (ActionError ''boom'')]"
proof -
  let ?s2 = "\<lparr>pool = Some \<lparr>idle = [1], borrowed = [0], created = 2\<rparr>, store = Map.empty,
              logged = [InfoInitializingPool, InfoClientCreated, InfoClientCreated], commands = []\<rparr>"
  have a: "acquire (initPool fresh_service) = (0, ?s2)"
    by (simp add: fresh_service_def initPool_def acquire_def logger_def)
  have b: "raising_action 0 ?s2 = (Inl (ActionError ''boom''), ?s2)"
    by (simp add: raising_action_def)
  from withClient_always_releases [of fresh_service 0 ?s2 raising_action _ ?s2, OF a b] show ?thesis
    by (simp add: is_borrowed_def)
qed


lemma withClient_alt:
  "withClient action s =
     (let a = acquire (initPool s); b = action (fst a) (snd a)
      in (fst b, release (fst a)
            (case fst b of Inl err \<Rightarrow> logger (ErrorOperationFailed err) (snd b)
             | Inr v \<Rightarrow> snd b)))"
  by (simp add: withClient_def Let_def case_prod_beta)

lemma store_withClient_Inl:
  "fst (action (fst (acquire (initPool s))) (snd (acquire (initPool s)))) = Inl e \<Longrightarrow>
   store (snd (withClient action s)) =
     store (snd (action (fst (acquire (initPool s))) (snd (acquire (initPool s)))))"
  by (simp add: withClient_alt Let_def)

lemma commands_withClient:
  "commands (snd (withClient action s)) =
     commands (snd (action (fst (acquire (initPool s))) (snd (acquire (initPool s)))))"
  by (simp add: withClient_alt Let_def split: sum.splits)

lemma store_withClient:
  "store (snd (withClient action s)) =
     store (snd (action (fst (acquire (initPool s))) (snd (acquire (initPool s)))))"
  by (simp add: withClient_alt Let_def split: sum.splits)

lemma logged_withClient:
  "logged (snd (withClient action s)) =
     (let b = action (fst (acquire (initPool s))) (snd (acquire (initPool s)))
      in case fst b of Inl err \<Rightarrow> logged (snd b) @ [ErrorOperationFailed err]
         | Inr v \<Rightarrow> logged (snd b))"
  by (simp add: withClient_alt Let_def split: sum.splits)

lemma fst_withClient:
  "fst (withClient action s) =
     fst (action (fst (acquire (initPool s))) (snd (acquire (initPool s))))"
  by (simp add: withClient_alt Let_def)

lemma commands_set_redis:
  "commands (snd (set_redis stringify key v ttl s)) =
     commands s @ [(fst (acquire (initPool s)),
        (case ttl of None \<Rightarrow> SET key (stringify v)
         | Some n \<Rightarrow> if n \<noteq> 0 then SET_EX key (stringify v) n else SET key (stringify v)))]"
  by (simp add: set_redis_def commands_withClient client_set_def client_set_ex_def send_def
      Let_def split: option.splits)

text \<open>
  C5. For a key absent from the store, update fails with the not-found error, leaves the
  store as it was (so the key is not created), and sends nothing but the existence
  check; and in every case the first command update sends is the existence check.
\<close>

theorem update_missing_key:
  "(store s key = None \<longrightarrow>
      fst (update stringify key v ttl s) = Inl (KeyDoesNotExist key)
      \<and> store (snd (update stringify key v ttl s)) = store s
      \<and> commands (snd (update stringify key v ttl s)) =
          commands s @ [(fst (acquire (initPool s)), EXISTS key)])
   \<and> take (Suc (length (commands s))) (commands (snd (update stringify key v ttl s))) =
       commands s @ [(fst (acquire (initPool s)), EXISTS key)]"
proof -
  have absent: "fst (update stringify key v ttl s) = Inl (KeyDoesNotExist key)
      \<and> store (snd (update stringify key v ttl s)) = store s
      \<and> commands (snd (update stringify key v ttl s)) =
          commands s @ [(fst (acquire (initPool s)), EXISTS key)]"
    if "store s key = None"
    using that
    by (simp add: update_def fst_withClient store_withClient commands_withClient
        client_exists_def send_def)
  have first: "take (Suc (length (commands s))) (commands (snd (update stringify key v ttl s))) =
       commands s @ [(fst (acquire (initPool s)), EXISTS key)]"
    by (cases "store s key")
      (simp_all add: update_def commands_withClient client_exists_def send_def
        commands_set_redis)
  from absent first show ?thesis by blast
qed

theorem update_missing_key_witness:
  "store fresh_service ''missing-key'' = None
   \<and> fst (update stringify_literal ''missing-key'' JNull None fresh_service) =
       Inl (KeyDoesNotExist ''missing-key'')
   \<and> store (snd (update stringify_literal ''missing-key'' JNull None fresh_service)) =
       store fresh_service
   \<and> commands (snd (update stringify_literal ''missing-key'' JNull None fresh_service)) =
       [(0, EXISTS ''missing-key'')]"
proof -
  have a: "store fresh_service ''missing-key'' = None"
    by (simp add: fresh_service_def)
  have c: "fst (acquire (initPool fresh_service)) = 0"
    by (simp add: fresh_service_def initPool_def acquire_def logger_def)
  have e: "commands fresh_service = []"
    by (simp add: fresh_service_def)
  from update_missing_key [of fresh_service "''missing-key''" stringify_literal JNull None] a c e
  show ?thesis by simp
qed


lemma logged_client_get [simp]: "logged (snd (client_get c key s)) = logged s"
  by (simp add: client_get_def send_def)

lemma fst_client_get [simp]: "fst (client_get c key s) = map_option fst (store s key)"
  by (simp add: client_get_def)

text \<open>
  C4, as amended. get returns \<^verbatim>\<open>null\<close> without logging when the key is absent or its
  payload is the empty text; when the payload is a non-empty text that does not parse,
  get logs the parse failure and returns \<^verbatim>\<open>null\<close>; in neither case does it throw.
\<close>

theorem get_null_on_bad_payload:
  "(store s key = None \<or> (\<exists>e. store s key = Some ([], e)) \<longrightarrow>
      fst (get parse key s) = Inr None
      \<and> logged (snd (get parse key s)) = logged (snd (acquire (initPool s))))
   \<and> (store s key = Some (text, e) \<and> text \<noteq> [] \<and> parse text = None \<longrightarrow>
      fst (get parse key s) = Inr None
      \<and> logged (snd (get parse key s)) =
          logged (snd (acquire (initPool s))) @ [ErrorParseFailed key])"
proof -
  have absent: "fst (get parse key s) = Inr None
      \<and> logged (snd (get parse key s)) = logged (snd (acquire (initPool s)))"
    if "store s key = None \<or> (\<exists>e. store s key = Some ([], e))"
    using that
    by (auto simp: get_def fst_withClient logged_withClient case_prod_beta Let_def)
  have corrupted: "fst (get parse key s) = Inr None
      \<and> logged (snd (get parse key s)) =
          logged (snd (acquire (initPool s))) @ [ErrorParseFailed key]"
    if "store s key = Some (text, e)" "text \<noteq> []" "parse text = None"
    using that
    by (simp add: get_def fst_withClient logged_withClient case_prod_beta Let_def)
  from absent corrupted show ?thesis by blast
qed

theorem get_null_on_bad_payload_witness:
  "store stored_service ''absent'' = None
   \<and> fst (get parse_literal ''absent'' stored_service) = Inr None
   \<and> logged (snd (get parse_literal ''absent'' stored_service)) =
       [InfoInitializingPool, InfoClientCreated, InfoClientCreated]
   \<and> store stored_service ''corrupted'' = Some (''{'', None) \<and> parse_literal ''{'' = None
   \<and> fst (get parse_literal ''corrupted'' stored_service) = Inr None
   \<and> logged (snd (get parse_literal ''corrupted'' stored_service)) =
       [InfoInitializingPool, InfoClientCreated, InfoClientCreated,
        ErrorParseFailed ''corrupted'']"
proof -
  have a: "store stored_service ''absent'' = None"
    and b: "store stored_service ''corrupted'' = Some (''{'', None)"
    by (simp_all add: stored_service_def fresh_service_def)
  have p: "parse_literal ''{'' = None"
    by (simp add: parse_literal_def)
  have l: "logged (snd (acquire (initPool stored_service))) =
      [InfoInitializingPool, InfoClientCreated, InfoClientCreated]"
    by (simp add: stored_service_def fresh_service_def initPool_def acquire_def logger_def)
  from get_null_on_bad_payload [of stored_service "''absent''" parse_literal "''{''" None]
    get_null_on_bad_payload [of stored_service "''corrupted''" parse_literal "''{''" None]
    a b p l
  show ?thesis by simp
qed

text \<open>
  C4 as stated fails on the empty payload: it exists, it is not valid JSON, get returns
  \<^verbatim>\<open>null\<close>, and nothing about a parse failure is logged (\<^verbatim>\<open>if (!val) return null\<close>
  comes before the parse).
\<close>

theorem get_empty_payload_not_logged:
  "store stored_service ''empty'' = Some ([], None) \<and> parse_literal [] = None
   \<and> fst (get parse_literal ''empty'' stored_service) = Inr None
   \<and> logged (snd (get parse_literal ''empty'' stored_service)) =
       [InfoInitializingPool, InfoClientCreated, InfoClientCreated]"
proof -
  have "store stored_service ''empty'' = Some ([], None)"
    by (simp add: stored_service_def fresh_service_def)
  moreover have "parse_literal [] = None"
    by (simp add: parse_literal_def)
  moreover have "logged (snd (acquire (initPool stored_service))) =
      [InfoInitializingPool, InfoClientCreated, InfoClientCreated]"
    by (simp add: stored_service_def fresh_service_def initPool_def acquire_def logger_def)
  ultimately show ?thesis
    by (simp add: get_def fst_withClient logged_withClient case_prod_beta Let_def)
qed

text \<open>The earlier revision of get throws where the present one logs.\<close>

lemma get_rev0_throws:
  "store s key = Some (text, e) \<Longrightarrow> text \<noteq> [] \<Longrightarrow> parse text = None \<Longrightarrow>
   fst (get_rev0 parse key s) = Inl SyntaxError"
  by (simp add: get_rev0_def withClient_rev0_def case_prod_beta Let_def)

lemma set_redis_stores:
  "fst (set_redis stringify key v ttl s) = Inr ()
   \<and> store (snd (set_redis stringify key v ttl s)) =
       (store s)(key \<mapsto> (stringify v,
          case ttl of None \<Rightarrow> None | Some n \<Rightarrow> if n \<noteq> 0 then Some n else None))"
  by (simp add: set_redis_def fst_withClient store_withClient client_set_def
      client_set_ex_def send_def Let_def split: option.splits)

text \<open>
  C9 at a time-to-live of zero: \<^verbatim>\<open>if (ttlInSeconds)\<close> is false, so set sends the
  command without \<^verbatim>\<open>'EX'\<close> and the entry is stored without expiry.
\<close>

theorem set_redis_zero_ttl_persists:
  "store (snd (set_redis stringify key v (Some 0) s)) key = Some (stringify v, None)
   \<and> commands (snd (set_redis stringify key v (Some 0) s)) =
       commands s @ [(fst (acquire (initPool s)), SET key (stringify v))]"
  by (simp add: set_redis_stores commands_set_redis)

end
